theory Spec2Isabelle
  imports Complex_Main "HOL-Library.AList" "HOL-Library.Word"
begin

section \<open>Python strings\<close>

text \<open>
  A Python \<open>str\<close> is modelled as a \<open>string\<close> of ASCII characters.  The helpers
  below are the \<open>str\<close> methods that \<^verbatim>\<open>write_outnc.py\<close> calls.
\<close>

definition is_space :: "char \<Rightarrow> bool" where
  \<comment> \<open>the ASCII characters for which \<^verbatim>\<open>str.isspace\<close> holds\<close>
  "is_space c = (c \<in> {CHR '' '', CHR 0x09, CHR 0x0A, CHR 0x0B, CHR 0x0C, CHR 0x0D,
                       CHR 0x1C, CHR 0x1D, CHR 0x1E, CHR 0x1F})"

definition lstrip :: "string \<Rightarrow> string" where
  "lstrip s = dropWhile is_space s"

definition rstrip :: "string \<Rightarrow> string" where
  "rstrip s = rev (dropWhile is_space (rev s))"

definition strip :: "string \<Rightarrow> string" where
  "strip s = rstrip (lstrip s)"

definition strip_chars :: "char set \<Rightarrow> string \<Rightarrow> string" where
  \<comment> \<open>\<^verbatim>\<open>s.strip(chars)\<close>\<close>
  "strip_chars cs s = rev (dropWhile (\<lambda>c. c \<in> cs) (rev (dropWhile (\<lambda>c. c \<in> cs) s)))"

abbreviation dquote :: char where
  "dquote \<equiv> CHR 0x22"

fun join :: "string \<Rightarrow> string list \<Rightarrow> string" where
  \<comment> \<open>\<^verbatim>\<open>sep.join(xs)\<close>\<close>
  "join sep [] = []"
| "join sep [x] = x"
| "join sep (x # y # ys) = x @ sep @ join sep (y # ys)"

fun split_on :: "char \<Rightarrow> string \<Rightarrow> string list" where
  \<comment> \<open>\<^verbatim>\<open>s.split(c)\<close> for a one-character separator: never the empty list\<close>
  "split_on c [] = [[]]"
| "split_on c (x # xs) =
     (if x = c then [] # split_on c xs
      else (case split_on c xs of
              [] \<Rightarrow> [[x]]
            | w # ws \<Rightarrow> (x # w) # ws))"

definition split1 :: "char \<Rightarrow> string \<Rightarrow> string list" where
  \<comment> \<open>\<^verbatim>\<open>s.split(c, 1)\<close>: cut at the first occurrence of the separator\<close>
  "split1 c s =
     (if c \<in> set s then [takeWhile (\<lambda>x. x \<noteq> c) s, tl (dropWhile (\<lambda>x. x \<noteq> c) s)]
      else [s])"

definition rsplit1 :: "char \<Rightarrow> string \<Rightarrow> string \<times> string" where
  \<comment> \<open>\<^verbatim>\<open>a, b = s.rsplit(c, 1)\<close> when the separator occurs in \<open>s\<close>: cut at the last
      occurrence\<close>
  "rsplit1 c s =
     (rev (tl (dropWhile (\<lambda>x. x \<noteq> c) (rev s))), rev (takeWhile (\<lambda>x. x \<noteq> c) (rev s)))"

definition digit_char :: "nat \<Rightarrow> char" where
  "digit_char d = char_of (48 + d)"

fun show_nat :: "nat \<Rightarrow> string" where
  "show_nat n = (if n < 10 then [digit_char n] else show_nat (n div 10) @ [digit_char (n mod 10)])"

declare show_nat.simps [simp del]

definition show_int :: "int \<Rightarrow> string" where
  "show_int i = (if i < 0 then CHR ''-'' # show_nat (nat (- i)) else show_nat (nat i))"

definition pad2 :: "int \<Rightarrow> string" where
  \<comment> \<open>the two-digit fields of \<^verbatim>\<open>strftime\<close>: \<^verbatim>\<open>%m %d %H %M %S\<close>\<close>
  "pad2 i = (if i < 10 then CHR ''0'' # show_int i else show_int i)"

section \<open>Calendar\<close>

text \<open>
  The proleptic Gregorian calendar of Python's \<^verbatim>\<open>datetime\<close> module: day ordinals count
  from 0001-01-01 = 1, and the conversion between ordinals and dates is the one of
  \<^verbatim>\<open>_ymd2ord\<close> and \<^verbatim>\<open>_ord2ymd\<close>.
\<close>

record datetime =
  dt_year :: int
  dt_month :: int
  dt_day :: int
  dt_hour :: int
  dt_minute :: int
  dt_second :: int

definition is_leap :: "int \<Rightarrow> bool" where
  "is_leap y = (y mod 4 = 0 \<and> (y mod 100 \<noteq> 0 \<or> y mod 400 = 0))"

definition days_before_year :: "int \<Rightarrow> int" where
  "days_before_year year = (let y = year - 1 in y * 365 + y div 4 - y div 100 + y div 400)"

definition DAYS_IN_MONTH :: "int list" where
  "DAYS_IN_MONTH = [-1, 31, 28, 31, 30, 31, 30, 31, 31, 30, 31, 30, 31]"

definition DAYS_BEFORE_MONTH :: "int list" where
  "DAYS_BEFORE_MONTH = [-1, 0, 31, 59, 90, 120, 151, 181, 212, 243, 273, 304, 334]"

definition days_before_month :: "int \<Rightarrow> int \<Rightarrow> int" where
  "days_before_month year month =
     DAYS_BEFORE_MONTH ! nat month + (if month > 2 \<and> is_leap year then 1 else 0)"

definition ymd2ord :: "int \<Rightarrow> int \<Rightarrow> int \<Rightarrow> int" where
  "ymd2ord year month day = days_before_year year + days_before_month year month + day"

definition month_day :: "bool \<Rightarrow> int \<Rightarrow> int \<times> int" where
  \<comment> \<open>the last part of \<^verbatim>\<open>_ord2ymd\<close>: month and day of the zero-based day \<open>n\<close> of a year,
      from the estimate \<^verbatim>\<open>(n + 50) >> 5\<close> of the month\<close>
  "month_day leapyear n =
     (let month = (n + 50) div 32;
          preceding = DAYS_BEFORE_MONTH ! nat month + (if month > 2 \<and> leapyear then 1 else 0)
      in if preceding > n
         then let month' = month - 1;
                  preceding' = preceding - (DAYS_IN_MONTH ! nat month'
                                  + (if month' = 2 \<and> leapyear then 1 else 0))
              in (month', n - preceding' + 1)
         else (month, n - preceding + 1))"

definition ord2ymd :: "int \<Rightarrow> int \<times> int \<times> int" where
  "ord2ymd ordinal =
     (let n = ordinal - 1;
          n400 = n div 146097; n = n mod 146097;
          n100 = n div 36524; n = n mod 36524;
          n4 = n div 1461; n = n mod 1461;
          n1 = n div 365; n = n mod 365;
          year = n400 * 400 + 1 + n100 * 100 + n4 * 4 + n1
      in if n1 = 4 \<or> n100 = 4 then (year - 1, 12, 31)
         else
           let leapyear = (n1 = 3 \<and> (n4 \<noteq> 24 \<or> n100 = 3));
               (month, day) = month_day leapyear n
           in (year, month, day))"

definition epoch_ordinal :: int where
  \<comment> \<open>the ordinal of 1970-01-01\<close>
  "epoch_ordinal = 719163"

definition datetime_of_seconds :: "int \<Rightarrow> datetime" where
  \<comment> \<open>the naive UTC \<^verbatim>\<open>datetime\<close> of a count of whole seconds since the epoch\<close>
  "datetime_of_seconds s =
     (let days = s div 86400; sod = s mod 86400;
          (y, m, d) = ord2ymd (days + epoch_ordinal)
      in \<lparr> dt_year = y, dt_month = m, dt_day = d,
           dt_hour = sod div 3600, dt_minute = (sod mod 3600) div 60, dt_second = sod mod 60 \<rparr>)"

definition strftime_date :: "datetime \<Rightarrow> string" where
  \<comment> \<open>\<^verbatim>\<open>%Y-%m-%d\<close> (the C library prints \<^verbatim>\<open>%Y\<close> without padding; years from 1000 on
      have four digits either way)\<close>
  "strftime_date dt = show_int (dt_year dt) @ ''-'' @ pad2 (dt_month dt) @ ''-'' @ pad2 (dt_day dt)"

definition strftime_time :: "datetime \<Rightarrow> string" where
  \<comment> \<open>\<^verbatim>\<open>%H:%M:%S\<close>\<close>
  "strftime_time dt = pad2 (dt_hour dt) @ '':'' @ pad2 (dt_minute dt) @ '':'' @ pad2 (dt_second dt)"

section \<open>Data model\<close>

datatype pyfloat = Finite rat | PosInf | NegInf | NaN

text \<open>
  A Python \<open>float\<close> or a \<open>float64\<close> array element; a finite value is represented by the
  rational it stands for (rounding to 53 bits is not modelled).
\<close>

datatype (plugins del: size) attrval =
    AStr string
  | AInt int
  | AFloat pyfloat
  | ATuple "int list"
  | AInt32 "32 word"
  | AArray "pyfloat list"

text \<open>
  The values an attribute of the DOD can hold: what \<^verbatim>\<open>_parse_attribute_value\<close> returns
  (\<open>str\<close>, \<open>int\<close>, \<open>float\<close>, a tuple of \<open>int\<close>) and what \<^verbatim>\<open>_update_dod_time_attributes\<close>
  can store (a string, \<^verbatim>\<open>np.int32\<close>, a one-dimensional \<open>float64\<close> array).  The empty
  string \<open>AStr ''''\<close> is the marker of an attribute without a value.
\<close>

record varspec =
  vs_dtype :: string
  vs_dims :: "string list"
  vs_attrs :: "(string \<times> attrval) list"

record dod =
  dimensions :: "(string \<times> int option) list"
  variables :: "(string \<times> varspec) list"
  globals :: "(string \<times> string) list"

text \<open>
  The three dictionaries of a parsed DOD, as association lists in insertion order
  (a Python \<open>dict\<close> keeps it); the keys of a dictionary are distinct.
\<close>

datatype 'o pyval = PStr string | PDict "(string \<times> string) list" | PObj 'o

text \<open>
  A value of the configuration dictionary: a string, the name mapping (a dictionary from
  strings to strings), or any other object.
\<close>

type_synonym 'o config = "string \<rightharpoonup> 'o pyval"

definition py_str :: "('o pyval \<Rightarrow> string) \<Rightarrow> 'o pyval \<Rightarrow> string" where
  \<comment> \<open>the builtin \<^verbatim>\<open>str\<close>: the identity on strings; on other objects it is the parameter
      \<open>str_other\<close>\<close>
  "py_str str_other v = (case v of PStr s \<Rightarrow> s | _ \<Rightarrow> str_other v)"

datatype error =
    MissingGlobals "string list"
      \<comment> \<open>\<^verbatim>\<open>ValueError("DOD has empty global attributes not provided in config: ...")\<close>\<close>
  | ValueError
      \<comment> \<open>raised by the builtins \<^verbatim>\<open>int\<close> and \<^verbatim>\<open>float\<close> on a malformed literal\<close>
  | CftimeTypeError string
      \<comment> \<open>\<^verbatim>\<open>TypeError("Attempted to write cftime object for variable ...")\<close>\<close>
  | UnsizedTypeError
      \<comment> \<open>\<^verbatim>\<open>TypeError\<close> of \<^verbatim>\<open>len\<close> on a zero-dimensional array\<close>
  | NumpyTypeError
      \<comment> \<open>\<^verbatim>\<open>TypeError\<close> raised inside numpy: \<^verbatim>\<open>isnan\<close> on an object array, or a conversion
          of an object that is no number\<close>
  | IndexError
  | KeyError string
  | AttributeError
  | OverflowError

section \<open>Attribute resolver\<close>

record env =
  sys_argv :: "string list option"
    \<comment> \<open>\<^verbatim>\<open>sys.argv\<close>, \<open>None\<close> when the interpreter has none\<close>
  utcnow :: int
    \<comment> \<open>\<^verbatim>\<open>datetime.utcnow()\<close> in whole seconds since the epoch\<close>
  uname_n :: "string option"
    \<comment> \<open>the output of \<^verbatim>\<open>uname -n\<close>, \<open>None\<close> when the call fails\<close>

definition command_line :: "env \<Rightarrow> string" where
  "command_line e =
     (case sys_argv e of
        Some argv \<Rightarrow> if length argv > 0 then join '' '' argv else ''notebook''
      | None \<Rightarrow> ''notebook'')"

definition history :: "env \<Rightarrow> string" where
  "history e =
     (let dt = datetime_of_seconds (utcnow e);
          current_time = strftime_date dt @ '' '' @ strftime_time dt @ '' UTC'';
          system_info = (case uname_n e of Some out \<Rightarrow> strip out | None \<Rightarrow> ''unknown'')
      in ''created on '' @ current_time @ '' on '' @ system_info)"

definition add_derived :: "env \<Rightarrow> 'o config \<Rightarrow> 'o config" where
  \<comment> \<open>the two assignments \<^verbatim>\<open>config["command_line"] = ...\<close> and
      \<^verbatim>\<open>config["history"] = ...\<close>, made on the dictionary that was passed in\<close>
  "add_derived e config =
     config(''command_line'' \<mapsto> PStr (command_line e), ''history'' \<mapsto> PStr (history e))"

fun fill_globals ::
  "('o pyval \<Rightarrow> string) \<Rightarrow> 'o config \<Rightarrow> (string \<times> string) list \<Rightarrow>
   (string \<times> string) list \<Rightarrow> string list \<Rightarrow> (string \<times> string) list \<times> string list" where
  \<comment> \<open>the loop over \<^verbatim>\<open>dod["globals"].items()\<close>: the items still to visit, the dictionary
      being updated in place, and the list \<open>missing\<close>\<close>
  "fill_globals str_other config [] gs missing = (gs, missing)"
| "fill_globals str_other config ((key, val) # items) gs missing =
     (if val = ''''
      then (case config key of
              Some v \<Rightarrow> fill_globals str_other config items
                          (AList.update key (py_str str_other v) gs) missing
            | None \<Rightarrow> fill_globals str_other config items gs (missing @ [key]))
      else fill_globals str_other config items gs missing)"

definition update_dod_globals ::
  "('o pyval \<Rightarrow> string) \<Rightarrow> env \<Rightarrow> dod \<Rightarrow> 'o config \<Rightarrow> (error + dod) \<times> 'o config" where
  \<comment> \<open>\<^verbatim>\<open>_update_dod_globals(dod, config)\<close>: the result or the exception, and the
      configuration dictionary as the call leaves it\<close>
  "update_dod_globals str_other e d config =
     (let config' = add_derived e config;
          (gs, missing) = fill_globals str_other config' (globals d) (globals d) []
      in if missing \<noteq> [] then (Inl (MissingGlobals missing), config')
         else (Inr (d\<lparr>globals := gs\<rparr>), config'))"

definition empty_globals :: "dod \<Rightarrow> string list" where
  \<comment> \<open>the names of the global attributes whose value is the empty string\<close>
  "empty_globals d = map fst (filter (\<lambda>(k, v). v = '''') (globals d))"

definition resolved ::
  "('o pyval \<Rightarrow> string) \<Rightarrow> 'o config \<Rightarrow> (string \<times> string) list \<Rightarrow> (string \<times> string) list" where
  \<comment> \<open>the global attributes with every empty one that has a key in the configuration
      replaced by the string of the configured value\<close>
  "resolved f c gs =
     map (\<lambda>(k, v). if v = '''' then (case c k of Some x \<Rightarrow> (k, py_str f x) | None \<Rightarrow> (k, v))
                    else (k, v)) gs"

definition env0 :: env where
  \<comment> \<open>an invocation \<^verbatim>\<open>run_hp.py 2024 01\<close> on 2024-01-15 03:20:00 UTC on host \<^verbatim>\<open>node1\<close>\<close>
  "env0 = \<lparr> sys_argv = Some [''run_hp.py'', ''2024'', ''01''], utcnow = 1705288800,
            uname_n = Some ''node1'' \<rparr>"

definition dod_doi :: dod where
  \<comment> \<open>a DOD with one global attribute set and three left empty\<close>
  "dod_doi = \<lparr> dimensions = [], variables = [],
               globals = [(''site_id'', ''guc''), (''doi'', ''''), (''command_line'', ''''),
                          (''facility_id'', '''')] \<rparr>"

section \<open>Attribute values\<close>

definition is_digit :: "char \<Rightarrow> bool" where
  "is_digit c = (48 \<le> (of_char c :: nat) \<and> (of_char c :: nat) \<le> 57)"

definition digit_val :: "char \<Rightarrow> nat" where
  "digit_val c = of_char c - 48"

fun digits_value :: "nat \<Rightarrow> string \<Rightarrow> nat option" where
  \<comment> \<open>decimal digits, with single underscores allowed between two digits\<close>
  "digits_value acc [] = Some acc"
| "digits_value acc (c # cs) =
     (if is_digit c then digits_value (10 * acc + digit_val c) cs
      else if c = CHR ''_'' \<and> cs \<noteq> [] \<and> is_digit (hd cs) then digits_value acc cs
      else None)"

definition py_int :: "string \<Rightarrow> int option" where
  \<comment> \<open>the builtin \<^verbatim>\<open>int(s)\<close> on a string: surrounding whitespace is dropped, then an
      optional sign and a decimal literal; \<open>None\<close> stands for \<^verbatim>\<open>ValueError\<close>\<close>
  "py_int s =
     (let t = strip s;
          (neg, body) = (case t of
                           c # r \<Rightarrow> if c = CHR ''-'' then (True, r)
                                    else if c = CHR ''+'' then (False, r) else (False, t)
                         | [] \<Rightarrow> (False, t))
      in if body \<noteq> [] \<and> is_digit (hd body)
         then map_option (\<lambda>n. if neg then - int n else int n) (digits_value 0 body)
         else None)"

definition parse_attribute_value ::
  "(string \<Rightarrow> pyfloat option) \<Rightarrow> string \<Rightarrow> string \<Rightarrow> error + (string \<times> attrval)" where
  \<comment> \<open>\<^verbatim>\<open>_parse_attribute_value(key, value_str)\<close>; the builtin \<^verbatim>\<open>float\<close> on strings is the
      parameter \<open>py_float\<close>, with \<open>None\<close> for \<^verbatim>\<open>ValueError\<close>\<close>
  "parse_attribute_value py_float key value_str =
     (let val = strip_chars {dquote} (strip value_str)
      in if CHR '':'' \<in> set key
         then (let (attr_name, type_hint) = rsplit1 CHR '':'' key
               in if type_hint = ''float''
                  then (case py_float val of
                          None \<Rightarrow> Inl ValueError
                        | Some x \<Rightarrow> Inr (attr_name, AFloat x))
                  else if type_hint = ''double''
                  then (case py_float val of
                          None \<Rightarrow> Inl ValueError
                        | Some x \<Rightarrow> Inr (attr_name, AFloat x))
                  else if type_hint = ''short'' \<or> type_hint = ''int''
                  then (if CHR '','' \<in> set val
                        then (case those (map (\<lambda>x. py_int (strip x)) (split_on CHR '','' val)) of
                                None \<Rightarrow> Inl ValueError
                              | Some xs \<Rightarrow> Inr (attr_name, ATuple xs))
                        else (case py_int val of
                                None \<Rightarrow> Inl ValueError
                              | Some i \<Rightarrow> Inr (attr_name, AInt i)))
                  else if type_hint = ''byte''
                  then (case py_int val of
                          None \<Rightarrow> Inl ValueError
                        | Some i \<Rightarrow> Inr (attr_name, AInt i))
                  else Inr (attr_name, AStr val))
         else Inr (key, AStr val))"

definition float_literals :: "string \<Rightarrow> pyfloat option" where
  \<comment> \<open>an instance of the builtin \<^verbatim>\<open>float\<close> restricted to three literals, for the examples\<close>
  "float_literals s =
     (if s = ''-9999'' then Some (Finite (-9999))
      else if s = ''0.5'' then Some (Finite (1 / 2))
      else if s = ''nan'' then Some NaN
      else None)"

section \<open>Time normalizer\<close>

text \<open>
  The primary timestamp is a \<^verbatim>\<open>datetime64[ns]\<close>: a count \<open>t\<close> of nanoseconds since the epoch.
  Quotients of two \<^verbatim>\<open>timedelta64\<close> are \<open>float64\<close> in numpy; here they are the exact
  rationals.
\<close>

definition trunc_div :: "int \<Rightarrow> int \<Rightarrow> int" where
  \<comment> \<open>\<^verbatim>\<open>int(a / b)\<close> for a positive \<open>b\<close>: the quotient rounded towards zero\<close>
  "trunc_div a b = (if a < 0 then - ((- a) div b) else a div b)"

definition np_int32 :: "int \<Rightarrow> error + 32 word" where
  \<comment> \<open>\<^verbatim>\<open>np.int32(i)\<close> of a Python \<open>int\<close>: an integer out of the range of the type is refused
      (numpy 2; older versions wrap around, with a deprecation warning)\<close>
  "np_int32 i =
     (if - 2147483648 \<le> i \<and> i \<le> 2147483647 then Inr (word_of_int i) else Inl OverflowError)"

definition strftime_scan :: "datetime \<Rightarrow> string" where
  \<comment> \<open>\<^verbatim>\<open>dt.strftime("%Y-%m-%d %H:%M:%S 0:00")\<close>\<close>
  "strftime_scan dt = strftime_date dt @ '' '' @ strftime_time dt @ '' 0:00''"

type_synonym times = "(string \<times> (string \<times> attrval) list) list"

definition standardized_times :: "int \<Rightarrow> error + times" where
  \<comment> \<open>the body of \<^verbatim>\<open>_get_standardized_times\<close> after \<^verbatim>\<open>t64 = np.datetime64(t)\<close>\<close>
  "standardized_times t64 =
     (let dt = datetime_of_seconds (t64 div 1000000000);
          base_time_val = trunc_div t64 1000000000;
          midnight = ymd2ord (dt_year dt) (dt_month dt) (dt_day dt) - epoch_ordinal;
          midnight64 = midnight * 86400 * 1000000;
          time_since_midnight_val = Finite (of_int (t64 - midnight64 * 1000) / 1000000000);
          scan_time_str = strftime_scan dt
      in case np_int32 base_time_val of
           Inl e \<Rightarrow> Inl e
         | Inr w \<Rightarrow>
             Inr [(''base_time'',
                     [(''value'', AInt32 w),
                      (''string'', AStr scan_time_str),
                      (''units'', AStr ''seconds since 1970-1-1 0:00:00 0:00'')]),
                  (''time_offset'',
                     [(''value'', AArray [Finite 0]),
                      (''units'', AStr (''seconds since '' @ scan_time_str))]),
                  (''time'',
                     [(''value'', AArray [time_since_midnight_val]),
                      (''units'', AStr (''seconds since '' @ strftime_date dt @ '' 00:00:00 0:00'')),
                      (''string'', AStr scan_time_str)])])"



definition t_scan :: int where
  \<comment> \<open>2024-01-15T03:20:00Z in nanoseconds since the epoch\<close>
  "t_scan = 1705288800000000000"




section \<open>Arrays, datasets and the output file\<close>

datatype elem = Num pyfloat | Datetime64 int | Cftime

text \<open>
  An element of a numpy array: a number, a \<^verbatim>\<open>datetime64\<close> (nanoseconds since the epoch), or
  an object of the \<^verbatim>\<open>cftime\<close> module, the only elements for which
  \<^verbatim>\<open>"cftime" in str(type(x))\<close> holds.
\<close>

datatype np_dtype = Float32 | Float64 | Int8 | Int16 | Int32 | Object | OtherDtype string

record ndarray =
  a_dtype :: np_dtype
  a_shape :: "nat list"
  a_flat :: "elem list"
    \<comment> \<open>the elements in the order of \<^verbatim>\<open>data.flat\<close>\<close>
  a_mask :: "(bool list \<times> elem) option"
    \<comment> \<open>for a masked array, the mask in flat order and the array's own \<^verbatim>\<open>fill_value\<close>
        (by default the one numpy assigns to the dtype); \<open>None\<close> for a plain array, which
        has no attribute \<^verbatim>\<open>mask\<close>\<close>

record dataset =
  ds_vars :: "string \<rightharpoonup> ndarray"
  ds_attrs :: "string \<rightharpoonup> attrval"

record numpy =
  np_scalar :: "string \<Rightarrow> attrval \<Rightarrow> elem"
    \<comment> \<open>the scalar that the \<^verbatim>\<open>_FillValue\<close> attribute of a variable of the given type
        reads back as\<close>
  np_cast :: "np_dtype \<Rightarrow> elem \<Rightarrow> elem"
    \<comment> \<open>the conversion of one number to a dtype\<close>
  np_result_type :: "elem \<Rightarrow> np_dtype \<Rightarrow> np_dtype"
    \<comment> \<open>the dtype of \<^verbatim>\<open>np.where(c, scalar, array)\<close>\<close>

text \<open>
  The numeric conversions of numpy are parameters of the model.  What is modelled of its
  failures: \<^verbatim>\<open>np.isnan\<close> refuses an object array, and a conversion to a numeric dtype refuses
  a \<^verbatim>\<open>cftime\<close> object.  Calls into the netCDF library are taken to succeed.
\<close>

datatype nc_data = DArray ndarray | DValue attrval

record nc_variable =
  v_dtype :: string
  v_dims :: "string list"
  v_fill :: "attrval option"
    \<comment> \<open>the \<^verbatim>\<open>fill_value\<close> given to \<^verbatim>\<open>createVariable\<close>, which the variable shows as its
        attribute \<^verbatim>\<open>_FillValue\<close>\<close>
  v_attrs :: "(string \<times> attrval) list"
    \<comment> \<open>the attributes set with \<^verbatim>\<open>setattr\<close> after creation\<close>
  v_data :: "nc_data option"
    \<comment> \<open>what was last assigned to \<^verbatim>\<open>var[:]\<close>\<close>

record nc_dataset =
  nc_path :: string
  nc_isopen :: bool
  nc_dimensions :: "(string \<times> int option) list"
  nc_attrs :: "(string \<times> string) list"
  nc_variables :: "(string \<times> nc_variable) list"

section \<open>Time attributes of the DOD\<close>

definition np_datetime64 :: "elem \<Rightarrow> error + int" where
  \<comment> \<open>\<^verbatim>\<open>np.datetime64(t)\<close>\<close>
  "np_datetime64 x = (case x of Datetime64 t \<Rightarrow> Inr t | _ \<Rightarrow> Inl ValueError)"

definition get_standardized_times :: "dataset \<Rightarrow> error + times" where
  \<comment> \<open>\<^verbatim>\<open>_get_standardized_times(ds)\<close>, with \<^verbatim>\<open>t = ds.time.values[0]\<close> read from a
      one-dimensional time coordinate\<close>
  "get_standardized_times ds =
     (case ds_vars ds ''time'' of
        None \<Rightarrow> Inl AttributeError
      | Some a \<Rightarrow>
          (case a_shape a of
             [n] \<Rightarrow> (case a_flat a of
                       [] \<Rightarrow> Inl IndexError
                     | x # _ \<Rightarrow> (case np_datetime64 x of
                                   Inl e \<Rightarrow> Inl e
                                 | Inr t64 \<Rightarrow> standardized_times t64))
           | [] \<Rightarrow> Inl IndexError
           | _ \<Rightarrow> Inl ValueError))"

definition fill_time_attrs ::
  "(string \<times> attrval) list \<Rightarrow> (string \<times> attrval) list \<Rightarrow> (string \<times> attrval) list" where
  \<comment> \<open>the inner loop of \<^verbatim>\<open>_update_dod_time_attributes\<close>: every empty attribute whose name is
      a key of \<open>meta\<close> takes the value from there\<close>
  "fill_time_attrs meta attrs =
     map (\<lambda>(attr_key, attr_val).
            if attr_val = AStr ''''
            then (case map_of meta attr_key of
                    Some v \<Rightarrow> (attr_key, v)
                  | None \<Rightarrow> (attr_key, attr_val))
            else (attr_key, attr_val)) attrs"

definition update_time_var :: "dod \<Rightarrow> string \<times> (string \<times> attrval) list \<Rightarrow> dod" where
  "update_time_var d tm =
     (case map_of (variables d) (fst tm) of
        None \<Rightarrow> d
      | Some vs \<Rightarrow>
          d\<lparr>variables :=
               AList.update (fst tm) (vs\<lparr>vs_attrs := fill_time_attrs (snd tm) (vs_attrs vs)\<rparr>)
                 (variables d)\<rparr>)"

definition update_dod_time_attributes :: "dod \<Rightarrow> dataset \<Rightarrow> error + dod" where
  \<comment> \<open>\<^verbatim>\<open>_update_dod_time_attributes(dod, ds)\<close>\<close>
  "update_dod_time_attributes d ds =
     (case get_standardized_times ds of
        Inl e \<Rightarrow> Inl e
      | Inr ts \<Rightarrow> Inr (foldl update_time_var d ts))"

section \<open>Structural pass\<close>

definition truthy :: "attrval \<Rightarrow> error + bool" where
  \<comment> \<open>the truth value Python gives a value in \<^verbatim>\<open>if fill\<close>; numpy refuses to give one to
      an array of several elements\<close>
  "truthy v =
     (case v of
        AStr s \<Rightarrow> Inr (s \<noteq> '''')
      | AInt i \<Rightarrow> Inr (i \<noteq> 0)
      | AFloat f \<Rightarrow> Inr (f \<noteq> Finite 0)
      | ATuple xs \<Rightarrow> Inr (xs \<noteq> [])
      | AInt32 w \<Rightarrow> Inr (w \<noteq> 0)
      | AArray xs \<Rightarrow> (case xs of
                        [] \<Rightarrow> Inr False
                      | [x] \<Rightarrow> Inr (x \<noteq> Finite 0)
                      | _ \<Rightarrow> Inl ValueError))"

definition create_variable :: "varspec \<Rightarrow> error + nc_variable" where
  \<comment> \<open>the body of the loop over \<^verbatim>\<open>dod["variables"]\<close> in \<^verbatim>\<open>_create_nc_structure\<close>\<close>
  "create_variable vinfo =
     (let attrs = vs_attrs vinfo;
          fill = map_of attrs ''_FillValue'';
          attrs = AList.delete ''_FillValue'' attrs
      in case (case fill of None \<Rightarrow> Inr False | Some f \<Rightarrow> truthy f) of
           Inl e \<Rightarrow> Inl e
         | Inr bound \<Rightarrow>
             Inr \<lparr> v_dtype = vs_dtype vinfo, v_dims = vs_dims vinfo,
                   v_fill = (if bound then fill else None),
                   v_attrs = attrs, v_data = None \<rparr>)"

fun create_variables ::
  "(string \<times> varspec) list \<Rightarrow> nc_dataset \<Rightarrow> error option \<times> nc_dataset" where
  "create_variables [] nc = (None, nc)"
| "create_variables ((varname, vinfo) # rest) nc =
     (case create_variable vinfo of
        Inl e \<Rightarrow> (Some e, nc)
      | Inr var \<Rightarrow>
          create_variables rest (nc\<lparr>nc_variables := AList.update varname var (nc_variables nc)\<rparr>))"

definition create_nc_structure :: "string \<Rightarrow> dod \<Rightarrow> error option \<times> nc_dataset" where
  \<comment> \<open>\<^verbatim>\<open>_create_nc_structure(path, dod)\<close>: the file is opened first; when a later step raises,
      the dataset is returned as it is then, still open\<close>
  "create_nc_structure path d =
     create_variables (variables d)
       \<lparr> nc_path = path, nc_isopen = True, nc_dimensions = dimensions d,
         nc_attrs = globals d, nc_variables = [] \<rparr>"

section \<open>Value pass\<close>

definition time_vars :: "string set" where
  "time_vars = {''time'', ''time_offset'', ''base_time''}"

definition dtype_map :: "string \<Rightarrow> np_dtype option" where
  "dtype_map s =
     (if s = ''float'' then Some Float32
      else if s = ''double'' then Some Float64
      else if s = ''short'' then Some Int16
      else if s = ''int'' then Some Int32
      else if s = ''byte'' then Some Int8
      else None)"

definition is_cftime :: "elem \<Rightarrow> bool" where
  \<comment> \<open>\<^verbatim>\<open>"cftime" in str(type(x))\<close>\<close>
  "is_cftime x = (case x of Cftime \<Rightarrow> True | _ \<Rightarrow> False)"

definition is_nan :: "elem \<Rightarrow> bool" where
  "is_nan x = (case x of Num NaN \<Rightarrow> True | _ \<Rightarrow> False)"

definition masked_at :: "bool list \<Rightarrow> nat \<Rightarrow> bool" where
  \<comment> \<open>a position beyond the mask is not masked (the mask \<^verbatim>\<open>nomask\<close>)\<close>
  "masked_at m i = (i < length m \<and> m ! i)"

definition ma_filled :: "numpy \<Rightarrow> ndarray \<Rightarrow> elem option \<Rightarrow> ndarray" where
  \<comment> \<open>\<^verbatim>\<open>np.ma.filled(data, fill_value=f)\<close> on a masked array: a plain array in which the
      masked elements are replaced, by \<open>f\<close> converted to the dtype of the array or, when \<open>f\<close>
      is \<open>None\<close>, by the \<^verbatim>\<open>fill_value\<close> of the array itself\<close>
  "ma_filled npy a f =
     (case a_mask a of
        None \<Rightarrow> a
      | Some (m, own) \<Rightarrow>
          (let fv = (case f of None \<Rightarrow> own | Some x \<Rightarrow> np_cast npy (a_dtype a) x)
           in a\<lparr>a_flat := map (\<lambda>i. if masked_at m i then fv else a_flat a ! i)
                               [0 ..< length (a_flat a)],
                 a_mask := None\<rparr>))"

definition fill_masked :: "numpy \<Rightarrow> elem option \<Rightarrow> ndarray \<Rightarrow> ndarray" where
  \<comment> \<open>\<^verbatim>\<open>if hasattr(data, "mask"): data = np.ma.filled(data, fill_value=dod_fill)\<close>\<close>
  "fill_masked npy dod_fill a = (if a_mask a \<noteq> None then ma_filled npy a dod_fill else a)"

definition replace_nan :: "numpy \<Rightarrow> elem option \<Rightarrow> ndarray \<Rightarrow> error + ndarray" where
  \<comment> \<open>\<^verbatim>\<open>if dod_fill is not None and np.any(np.isnan(data)):
        data = np.where(np.isnan(data), dod_fill, data)\<close>\<close>
  "replace_nan npy dod_fill a =
     (case dod_fill of
        None \<Rightarrow> Inr a
      | Some f \<Rightarrow>
          if a_dtype a = Object then Inl NumpyTypeError
          else if \<exists>x \<in> set (a_flat a). is_nan x
          then (let rt = np_result_type npy f (a_dtype a)
                in Inr (a\<lparr>a_dtype := rt,
                          a_flat := map (\<lambda>x. np_cast npy rt (if is_nan x then f else x))
                                      (a_flat a),
                          a_mask := None\<rparr>))
          else Inr a)"

definition check_cftime :: "string \<Rightarrow> ndarray \<Rightarrow> error + ndarray" where
  \<comment> \<open>\<^verbatim>\<open>if len(data) > 0 and "cftime" in str(type(data.flat[0])): raise TypeError(...)\<close>\<close>
  "check_cftime xr_name a =
     (case a_shape a of
        [] \<Rightarrow> Inl UnsizedTypeError
      | n # _ \<Rightarrow>
          if n > 0
          then (case a_flat a of
                  [] \<Rightarrow> Inl IndexError
                | x # _ \<Rightarrow> if is_cftime x then Inl (CftimeTypeError xr_name) else Inr a)
          else Inr a)"

definition astype :: "numpy \<Rightarrow> np_dtype \<Rightarrow> ndarray \<Rightarrow> error + ndarray" where
  \<comment> \<open>\<^verbatim>\<open>data.astype(t)\<close> to a numeric dtype\<close>
  "astype npy t a =
     (if \<exists>x \<in> set (a_flat a). is_cftime x then Inl NumpyTypeError
      else Inr (a\<lparr>a_dtype := t, a_flat := map (np_cast npy t) (a_flat a)\<rparr>))"

definition convert_dtype :: "numpy \<Rightarrow> dod \<Rightarrow> string \<Rightarrow> ndarray \<Rightarrow> error + ndarray" where
  \<comment> \<open>the conversion to the dtype declared in the DOD\<close>
  "convert_dtype npy d dod_name a =
     (case map_of (variables d) dod_name of
        None \<Rightarrow> Inr a
      | Some vs \<Rightarrow>
          (case dtype_map (vs_dtype vs) of
             None \<Rightarrow> Inr a
           | Some target_dtype \<Rightarrow>
               if a_dtype a \<noteq> target_dtype then astype npy target_dtype a else Inr a))"

definition nc_assign :: "string \<Rightarrow> nc_data \<Rightarrow> nc_dataset \<Rightarrow> nc_dataset" where
  \<comment> \<open>\<^verbatim>\<open>nc.variables[name][:] = data\<close> for a variable of the file\<close>
  "nc_assign name data nc =
     nc\<lparr>nc_variables :=
          map (\<lambda>(n, var). if n = name then (n, var\<lparr>v_data := Some data\<rparr>) else (n, var))
            (nc_variables nc)\<rparr>"

definition prepare_data ::
  "numpy \<Rightarrow> dod \<Rightarrow> string \<Rightarrow> string \<Rightarrow> elem option \<Rightarrow> ndarray \<Rightarrow> error + ndarray" where
  \<comment> \<open>the generic path from \<^verbatim>\<open>data = ds[xr_name].values\<close> to the array that is written\<close>
  "prepare_data npy d xr_name dod_name dod_fill data =
     (case replace_nan npy dod_fill (fill_masked npy dod_fill data) of
        Inl e \<Rightarrow> Inl e
      | Inr data \<Rightarrow>
          (case check_cftime xr_name data of
             Inl e \<Rightarrow> Inl e
           | Inr data \<Rightarrow> convert_dtype npy d dod_name data))"

definition write_entry ::
  "numpy \<Rightarrow> dataset \<Rightarrow> dod \<Rightarrow> string \<times> string \<Rightarrow> nc_dataset \<Rightarrow> error + nc_dataset" where
  \<comment> \<open>the body of the loop over \<^verbatim>\<open>config["variable_mapping"].items()\<close>\<close>
  "write_entry npy ds d entry nc =
     (let xr_name = fst entry; dod_name = snd entry
      in case (ds_vars ds xr_name, map_of (nc_variables nc) dod_name) of
           (Some data, Some var) \<Rightarrow>
             if dod_name \<in> time_vars then Inr nc
             else (let dod_fill = map_option (np_scalar npy (v_dtype var)) (v_fill var)
                   in case prepare_data npy d xr_name dod_name dod_fill data of
                        Inl e \<Rightarrow> Inl e
                      | Inr data \<Rightarrow> Inr (nc_assign dod_name (DArray data) nc))
         | _ \<Rightarrow> Inr nc)"

fun mapped_pass ::
  "numpy \<Rightarrow> dataset \<Rightarrow> dod \<Rightarrow> (string \<times> string) list \<Rightarrow> nc_dataset \<Rightarrow>
   error option \<times> nc_dataset" where
  \<comment> \<open>the loop; an exception leaves the file as the entries before it have written it\<close>
  "mapped_pass npy ds d [] nc = (None, nc)"
| "mapped_pass npy ds d (entry # rest) nc =
     (case write_entry npy ds d entry nc of
        Inl e \<Rightarrow> (Some e, nc)
      | Inr nc' \<Rightarrow> mapped_pass npy ds d rest nc')"

fun write_times :: "times \<Rightarrow> nc_dataset \<Rightarrow> error option \<times> nc_dataset" where
  \<comment> \<open>\<^verbatim>\<open>for tname, tinfo in times.items(): if tname in nc.variables:
        nc.variables[tname][:] = tinfo["value"]\<close>\<close>
  "write_times [] nc = (None, nc)"
| "write_times ((tname, tinfo) # rest) nc =
     (if tname \<in> fst ` set (nc_variables nc)
      then (case map_of tinfo ''value'' of
              None \<Rightarrow> (Some (KeyError ''value''), nc)
            | Some v \<Rightarrow> write_times rest (nc_assign tname (DValue v) nc))
      else write_times rest nc)"

definition write_radar :: "dataset \<Rightarrow> string \<Rightarrow> string \<Rightarrow> nc_dataset \<Rightarrow> nc_dataset" where
  \<comment> \<open>one of the three blocks for \<open>radar_lat\<close>, \<open>radar_lon\<close> and \<open>radar_alt\<close>\<close>
  "write_radar ds var_name attr_name nc =
     (if var_name \<in> fst ` set (nc_variables nc)
      then (case ds_attrs ds attr_name of
              Some v \<Rightarrow> nc_assign var_name (DValue v) nc
            | None \<Rightarrow> nc_assign var_name (DValue (AFloat (Finite 0))) nc)
      else nc)"

definition nc_close :: "nc_dataset \<Rightarrow> nc_dataset" where
  "nc_close nc = nc\<lparr>nc_isopen := False\<rparr>"

definition write_dataset_to_file ::
  "numpy \<Rightarrow> dataset \<Rightarrow> nc_dataset \<Rightarrow> dod \<Rightarrow> 'o config \<Rightarrow> error option \<times> nc_dataset" where
  \<comment> \<open>\<^verbatim>\<open>_write_dataset_to_file(ds, nc, dod, config)\<close>: the exception raised, if any, and the
      file as the call leaves it\<close>
  "write_dataset_to_file npy ds nc d config =
     (case get_standardized_times ds of
        Inl e \<Rightarrow> (Some e, nc)
      | Inr tms \<Rightarrow>
          (case config ''variable_mapping'' of
             None \<Rightarrow> (Some (KeyError ''variable_mapping''), nc)
           | Some (PDict mapping) \<Rightarrow>
               (case mapped_pass npy ds d mapping nc of
                  (Some e, nc) \<Rightarrow> (Some e, nc)
                | (None, nc) \<Rightarrow>
                    (case write_times tms nc of
                       (Some e, nc) \<Rightarrow> (Some e, nc)
                     | (None, nc) \<Rightarrow>
                         (None,
                          nc_close
                            (write_radar ds ''radar_alt'' ''origin_altitude''
                              (write_radar ds ''radar_lon'' ''origin_longitude''
                                (write_radar ds ''radar_lat'' ''origin_latitude'' nc))))))
           | Some _ \<Rightarrow> (Some AttributeError, nc)))"

section \<open>Schema parser\<close>

definition is_word :: "char \<Rightarrow> bool" where
  \<comment> \<open>the ASCII characters that \<^verbatim>\<open>\w\<close> matches\<close>
  "is_word c =
     (let n = (of_char c :: nat)
      in (48 \<le> n \<and> n \<le> 57) \<or> (65 \<le> n \<and> n \<le> 90) \<or> (97 \<le> n \<and> n \<le> 122) \<or> n = 95)"

definition upper :: "string \<Rightarrow> string" where
  \<comment> \<open>\<^verbatim>\<open>s.upper()\<close> on ASCII\<close>
  "upper s = map (\<lambda>c. let n = (of_char c :: nat)
                        in if 97 \<le> n \<and> n \<le> 122 then char_of (n - 32) else c) s"

definition replace_tabs :: "string \<Rightarrow> string" where
  \<comment> \<open>\<^verbatim>\<open>s.replace('\t', ' ')\<close>\<close>
  "replace_tabs s = map (\<lambda>c. if c = CHR 0x09 then CHR '' '' else c) s"

definition split_eq :: "string \<Rightarrow> string \<times> string" where
  \<comment> \<open>\<^verbatim>\<open>map(str.strip, line.split("=", 1))\<close> for a line that contains \<open>=\<close>\<close>
  "split_eq line =
     (strip (takeWhile (\<lambda>c. c \<noteq> CHR ''='') line),
      strip (tl (dropWhile (\<lambda>c. c \<noteq> CHR ''='') line)))"

fun find_close :: "string \<Rightarrow> string \<Rightarrow> (string \<times> string) option" where
  \<comment> \<open>the part \<^verbatim>\<open>(.*?)\):(\w+)\<close> of the pattern: the shortest text before a \<open>):\<close> that is
      followed by a word character, and the word after it\<close>
  "find_close acc [] = None"
| "find_close acc (c # cs) =
     (if c = CHR '')'' \<and> (case cs of
                            k # w # _ \<Rightarrow> k = CHR '':'' \<and> is_word w
                          | _ \<Rightarrow> False)
      then Some (rev acc, takeWhile is_word (tl cs))
      else find_close (c # acc) cs)"

definition match_var_dims :: "string \<Rightarrow> (string \<times> string \<times> string) option" where
  \<comment> \<open>\<^verbatim>\<open>re.match(r"^(\w+)\((.*?)\):(\w+)", line)\<close>\<close>
  "match_var_dims line =
     (let name = takeWhile is_word line; rest = dropWhile is_word line
      in if name = [] then None
         else (case rest of
                 [] \<Rightarrow> None
               | c # body \<Rightarrow>
                   if c = CHR ''(''
                   then (case find_close [] body of
                           None \<Rightarrow> None
                         | Some (dims_str, dtype) \<Rightarrow> Some (name, dims_str, dtype))
                   else None))"

definition match_var_nodims :: "string \<Rightarrow> (string \<times> string) option" where
  \<comment> \<open>\<^verbatim>\<open>re.match(r"^(\w+)\(\):(\w+)", line)\<close>\<close>
  "match_var_nodims line =
     (let name = takeWhile is_word line; rest = dropWhile is_word line
      in if name = [] then None
         else (case rest of
                 a # b # c # w # r \<Rightarrow>
                   if a = CHR ''('' \<and> b = CHR '')'' \<and> c = CHR '':'' \<and> is_word w
                   then Some (name, takeWhile is_word (w # r))
                   else None
               | _ \<Rightarrow> None))"

record parser_state =
  ps_dims :: "(string \<times> int option) list"
  ps_variables :: "(string \<times> varspec) list"
  ps_globals :: "(string \<times> string) list"
  ps_current_var :: "string option"
  ps_in_globals :: bool

definition set_attr :: "string \<Rightarrow> string \<Rightarrow> attrval \<Rightarrow> parser_state \<Rightarrow> parser_state" where
  \<comment> \<open>\<^verbatim>\<open>variables[current_var]["attrs"][key] = value\<close>\<close>
  "set_attr var key v st =
     (case map_of (ps_variables st) var of
        None \<Rightarrow> st
      | Some vs \<Rightarrow>
          st\<lparr>ps_variables :=
                AList.update var (vs\<lparr>vs_attrs := AList.update key v (vs_attrs vs)\<rparr>)
                  (ps_variables st)\<rparr>)"

definition parse_top_level :: "string \<Rightarrow> parser_state \<Rightarrow> error + parser_state" where
  \<comment> \<open>a line without indentation before the global region\<close>
  "parse_top_level line st0 =
     (let st = st0\<lparr>ps_current_var := None\<rparr>
      in if CHR ''='' \<in> set line \<and> CHR ''('' \<notin> set line \<and> CHR '':'' \<notin> set line
         then (let (key, val) = split_eq line
               in if upper val = ''UNLIMITED''
                  then Inr (st\<lparr>ps_dims := AList.update key None (ps_dims st)\<rparr>)
                  else (case py_int val of
                          None \<Rightarrow> Inl ValueError
                        | Some n \<Rightarrow> Inr (st\<lparr>ps_dims := AList.update key (Some n) (ps_dims st)\<rparr>)))
         else (case match_var_dims line of
                 Some (name, dims_str, dtype) \<Rightarrow>
                   Inr (st\<lparr>ps_variables :=
                              AList.update name
                                \<lparr> vs_dtype = dtype,
                                  vs_dims = (if dims_str \<noteq> [] then map strip (split_on CHR '','' dims_str)
                                             else []),
                                  vs_attrs = [] \<rparr> (ps_variables st),
                            ps_current_var := Some name\<rparr>)
               | None \<Rightarrow>
                   (case match_var_nodims line of
                      Some (name, dtype) \<Rightarrow>
                        Inr (st\<lparr>ps_variables :=
                                   AList.update name
                                     \<lparr> vs_dtype = dtype, vs_dims = [], vs_attrs = [] \<rparr>
                                     (ps_variables st),
                                 ps_current_var := Some name\<rparr>)
                    | None \<Rightarrow> Inr st)))"

definition parse_attr_line ::
  "(string \<Rightarrow> pyfloat option) \<Rightarrow> string \<Rightarrow> string \<Rightarrow> parser_state \<Rightarrow> error + parser_state" where
  \<comment> \<open>a line of indentation 4 inside the variable \<open>var\<close>\<close>
  "parse_attr_line py_float var line st =
     (if CHR ''='' \<in> set line
      then (let (ak, av) = split_eq line
            in case parse_attribute_value py_float ak av of
                 Inl e \<Rightarrow> Inl e
               | Inr (clean_key, typed_value) \<Rightarrow> Inr (set_attr var clean_key typed_value st))
      else (let clean_key = strip line;
                clean_key = (if CHR '':'' \<in> set clean_key
                             then takeWhile (\<lambda>c. c \<noteq> CHR '':'') clean_key else clean_key)
            in Inr (set_attr var clean_key (AStr '''') st)))"

definition parse_global_line :: "string \<Rightarrow> parser_state \<Rightarrow> parser_state" where
  \<comment> \<open>a line of indentation 2 in the global region\<close>
  "parse_global_line line st =
     (if CHR ''='' \<in> set line
      then (let (key, val) = split_eq line
            in st\<lparr>ps_globals := AList.update key (strip_chars {dquote} val) (ps_globals st)\<rparr>)
      else st\<lparr>ps_globals := AList.update (strip line) '''' (ps_globals st)\<rparr>)"

definition parse_line ::
  "(string \<Rightarrow> pyfloat option) \<Rightarrow> string \<Rightarrow> parser_state \<Rightarrow> error + parser_state" where
  \<comment> \<open>the body of the loop of \<^verbatim>\<open>_parse_dod\<close>\<close>
  "parse_line py_float raw st =
     (let line = replace_tabs (rstrip raw)
      in if strip line = [] then Inr st
         else if take 1 (strip line) = ''#''
         then Inr (st\<lparr>ps_in_globals := True, ps_current_var := None\<rparr>)
         else (let indent = length line - length (lstrip line)
               in if \<not> ps_in_globals st \<and> indent = 0 then parse_top_level line st
                  else if indent = 4 \<and> ps_current_var st \<noteq> None \<and> ps_current_var st \<noteq> Some []
                  then parse_attr_line py_float (the (ps_current_var st)) line st
                  else if ps_in_globals st \<and> indent = 2 then Inr (parse_global_line line st)
                  else Inr st))"

fun parse_lines ::
  "(string \<Rightarrow> pyfloat option) \<Rightarrow> string list \<Rightarrow> parser_state \<Rightarrow> error + parser_state" where
  "parse_lines py_float [] st = Inr st"
| "parse_lines py_float (raw # rest) st =
     (case parse_line py_float raw st of
        Inl e \<Rightarrow> Inl e
      | Inr st' \<Rightarrow> parse_lines py_float rest st')"

definition parse_dod :: "(string \<Rightarrow> pyfloat option) \<Rightarrow> string list \<Rightarrow> error + dod" where
  \<comment> \<open>\<^verbatim>\<open>_parse_dod\<close> on the lines of the DOD file\<close>
  "parse_dod py_float lines =
     (case parse_lines py_float lines
             \<lparr> ps_dims = [], ps_variables = [], ps_globals = [], ps_current_var = None,
               ps_in_globals = False \<rparr> of
        Inl e \<Rightarrow> Inl e
      | Inr st \<Rightarrow>
          Inr \<lparr> dimensions = ps_dims st, variables = ps_variables st, globals = ps_globals st \<rparr>)"

section \<open>The whole write\<close>

definition set_fields :: "nc_dataset \<Rightarrow> nc_dataset" where
  \<comment> \<open>\<^verbatim>\<open>nc.fields = ', '.join(list(nc.variables.keys()))\<close>\<close>
  "set_fields nc =
     nc\<lparr>nc_attrs := AList.update ''fields'' (join '', '' (map fst (nc_variables nc))) (nc_attrs nc)\<rparr>"

definition write_ds_to_nc ::
  "numpy \<Rightarrow> (string \<Rightarrow> pyfloat option) \<Rightarrow> ('o pyval \<Rightarrow> string) \<Rightarrow> env \<Rightarrow>
   dataset \<Rightarrow> string list \<Rightarrow> string \<Rightarrow> 'o config \<Rightarrow>
   error option \<times> nc_dataset option \<times> 'o config" where
  \<comment> \<open>\<^verbatim>\<open>write_ds_to_nc(ds, dod_template_path, output_path, config)\<close>, the template given by its
      lines: the exception raised, if any; the output file, if it was opened, as the call
      leaves it; the configuration as the call leaves it\<close>
  "write_ds_to_nc npy py_float str_other e ds template output_path config =
     (case parse_dod py_float template of
        Inl err \<Rightarrow> (Some err, None, config)
      | Inr d \<Rightarrow>
          (case update_dod_globals str_other e d config of
             (Inl err, config') \<Rightarrow> (Some err, None, config')
           | (Inr d, config') \<Rightarrow>
               (case update_dod_time_attributes d ds of
                  Inl err \<Rightarrow> (Some err, None, config')
                | Inr d \<Rightarrow>
                    (case create_nc_structure output_path d of
                       (Some err, nc) \<Rightarrow> (Some err, Some nc, config')
                     | (None, nc) \<Rightarrow>
                         (case write_dataset_to_file npy ds (set_fields nc) d config' of
                            (r, nc) \<Rightarrow> (r, Some nc, config'))))))"

section \<open>Example inputs\<close>







definition npy0 :: numpy where
  \<comment> \<open>an instance of the numeric parameters: integer and float fill values read back as
      numbers, conversions keep the value\<close>
  "npy0 = \<lparr> np_scalar = (\<lambda>t v. case v of AInt i \<Rightarrow> Num (Finite (of_int i))
                                       | AFloat f \<Rightarrow> Num f
                                       | _ \<Rightarrow> Num NaN),
            np_cast = (\<lambda>t x. x),
            np_result_type = (\<lambda>f t. t) \<rparr>"

definition vs_refl :: varspec where
  \<comment> \<open>\<^verbatim>\<open>refl(x):float\<close> with \<^verbatim>\<open>_FillValue:float = -9999\<close> and \<^verbatim>\<open>units = dBZ\<close>\<close>
  "vs_refl = \<lparr> vs_dtype = ''float'', vs_dims = [''x''],
               vs_attrs = [(''_FillValue'', AFloat (Finite (- 9999))), (''units'', AStr ''dBZ'')] \<rparr>"

definition vs_bare :: varspec where
  \<comment> \<open>\<^verbatim>\<open>hp_ssc(x):short\<close> with a bare attribute line \<^verbatim>\<open>_FillValue\<close>\<close>
  "vs_bare = \<lparr> vs_dtype = ''short'', vs_dims = [''x''],
               vs_attrs = [(''long_name'', AStr ''phase''), (''_FillValue'', AStr '''')] \<rparr>"

definition vs_zero :: varspec where
  \<comment> \<open>\<^verbatim>\<open>hp_fhc(x):short\<close> with \<^verbatim>\<open>_FillValue:short = 0\<close>\<close>
  "vs_zero = \<lparr> vs_dtype = ''short'', vs_dims = [''x''],
               vs_attrs = [(''_FillValue'', AInt 0)] \<rparr>"

definition vs_flag :: varspec where
  \<comment> \<open>\<^verbatim>\<open>flag(x):S1\<close>, a character variable without attributes\<close>
  "vs_flag = \<lparr> vs_dtype = ''S1'', vs_dims = [''x''], vs_attrs = [] \<rparr>"

definition vs_time :: varspec where
  \<comment> \<open>\<^verbatim>\<open>time(time):double\<close> with a bare attribute line \<^verbatim>\<open>units\<close>\<close>
  "vs_time = \<lparr> vs_dtype = ''double'', vs_dims = [''time''], vs_attrs = [(''units'', AStr '''')] \<rparr>"

definition dod0 :: dod where
  "dod0 = \<lparr> dimensions = [(''time'', None), (''x'', Some 2)],
            variables = [(''time'', vs_time), (''refl'', vs_refl), (''hp_ssc'', vs_bare),
                         (''hp_fhc'', vs_zero), (''flag'', vs_flag)],
            globals = [(''site_id'', ''guc'')] \<rparr>"

definition nc0 :: nc_dataset where
  \<comment> \<open>the file that the structural pass creates from \<open>dod0\<close>\<close>
  "nc0 = snd (create_nc_structure ''out.nc'' dod0)"

definition arr_time :: ndarray where
  "arr_time = \<lparr> a_dtype = OtherDtype ''datetime64[ns]'', a_shape = [1],
                a_flat = [Datetime64 t_scan], a_mask = None \<rparr>"

definition arr_masked :: ndarray where
  \<comment> \<open>two floats, the second masked; the array's own fill value is numpy's default for
      floats, \<open>1e20\<close>\<close>
  "arr_masked = \<lparr> a_dtype = Float32, a_shape = [2],
                  a_flat = [Num (Finite 3), Num (Finite 7)],
                  a_mask = Some ([False, True], Num (Finite 100000000000000000000)) \<rparr>"

definition arr_mixed :: ndarray where
  \<comment> \<open>an object array of a number and a \<^verbatim>\<open>cftime\<close> object\<close>
  "arr_mixed = \<lparr> a_dtype = Object, a_shape = [2],
                 a_flat = [Num (Finite 1), Cftime], a_mask = None \<rparr>"

definition arr_cftime :: ndarray where
  \<comment> \<open>an object array of two \<^verbatim>\<open>cftime\<close> objects\<close>
  "arr_cftime = \<lparr> a_dtype = Object, a_shape = [2], a_flat = [Cftime, Cftime], a_mask = None \<rparr>"

definition ds0 :: dataset where
  "ds0 = \<lparr> ds_vars = [''time'' \<mapsto> arr_time, ''refl'' \<mapsto> arr_masked, ''mixed'' \<mapsto> arr_mixed,
                       ''when'' \<mapsto> arr_cftime],
           ds_attrs = Map.empty \<rparr>"




definition cfg_when :: "unit config" where
  "cfg_when = Map.empty(''variable_mapping'' \<mapsto> PDict [(''refl'', ''refl''), (''when'', ''hp_ssc'')])"

definition template0 :: "string list" where
  \<comment> \<open>a DOD: one dimension, a time variable with an empty attribute, a reflectivity with a
      fill value, a phase variable, and two global attributes, one of them empty\<close>
  "template0 =
     [''time = UNLIMITED'',
      ''x = 2'',
      ''time(time):double'',
      ''    units'',
      ''refl(x):float'',
      ''    _FillValue:float = -9999'',
      ''    units = dBZ'',
      ''hp_ssc(x):short'',
      ''    flag_values:short = 0, 1, 2'',
      ''# global attributes'',
      ''  site_id = guc'',
      ''  doi'']"

definition cfg_doi :: "unit config" where
  "cfg_doi = Map.empty(''doi'' \<mapsto> PStr ''10.5439/2530631'',
                       ''variable_mapping'' \<mapsto> PDict [(''refl'', ''refl'')])"

definition cfg_doi_when :: "unit config" where
  "cfg_doi_when = Map.empty(''doi'' \<mapsto> PStr ''10.5439/2530631'',
                       ''variable_mapping'' \<mapsto> PDict [(''refl'', ''refl''), (''when'', ''hp_ssc'')])"

definition cfg_nodoi :: "unit config" where
  "cfg_nodoi = Map.empty(''variable_mapping'' \<mapsto> PDict [(''refl'', ''refl'')])"

section \<open>Properties of the attribute resolver\<close>

lemma update_at_key:
  "k \<notin> fst ` set xs \<Longrightarrow> AList.update k v (xs @ (k, v0) # ys) = xs @ (k, v) # ys"
  by (induction xs) auto

lemma fill_globals_gen:
  "distinct (map fst (pre @ items)) \<Longrightarrow>
   fill_globals f c items (pre @ items) ms =
     (pre @ resolved f c items,
      ms @ map fst (filter (\<lambda>(k, v). v = '''' \<and> c k = None) items))"
  unfolding resolved_def
proof (induction items arbitrary: pre ms)
  case Nil
  then show ?case by simp
next
  case (Cons a items)
  obtain k v where a: "a = (k, v)" by (cases a)
  have d: "distinct (map fst ((pre @ [(k, w)]) @ items))" for w
    using Cons.prems a by auto
  have knot: "k \<notin> fst ` set pre" using Cons.prems a by auto
  show ?case
  proof (cases "v = ''''")
    case False
    then show ?thesis using Cons.IH[OF d, of v ms] a by simp
  next
    case True
    show ?thesis
    proof (cases "c k")
      case None
      then show ?thesis using Cons.IH[OF d, of v "ms @ [k]"] a True by simp
    next
      case (Some x)
      then show ?thesis using Cons.IH[OF d, of "py_str f x" ms] a True knot
        by (simp add: update_at_key)
    qed
  qed
qed

lemma fill_globals_all:
  "distinct (map fst gs) \<Longrightarrow>
   fill_globals f c gs gs [] = (resolved f c gs, filter (\<lambda>k. k \<notin> dom c) (map fst (filter (\<lambda>(k, v). v = '''') gs)))"
proof -
  assume d: "distinct (map fst gs)"
  have "map fst (filter (\<lambda>(k, v). v = '''' \<and> c k = None) gs) = filter (\<lambda>k. k \<notin> dom c) (map fst (filter (\<lambda>(k, v). v = '''') gs))"
    by (induction gs) (auto simp: dom_def)
  then show ?thesis using fill_globals_gen[of "[]" gs f c "[]"] d by simp
qed

lemma missing_nil_iff:
  "filter (\<lambda>k. k \<notin> dom c) ks = [] \<longleftrightarrow> set ks \<subseteq> dom c"
  by (induction ks) auto

lemma empty_resolved:
  "set (map fst (filter (\<lambda>(k, v). v = '''') gs)) \<subseteq> dom c \<Longrightarrow>
   map fst (filter (\<lambda>(k, v). v = '''') (resolved f c gs))
     = filter (\<lambda>k. py_str f (the (c k)) = '''') (map fst (filter (\<lambda>(k, v). v = '''') gs))"
proof (induction gs)
  case Nil
  then show ?case by (simp add: resolved_def)
next
  case (Cons a gs)
  obtain k v where a: "a = (k, v)" by (cases a)
  have sub: "set (map fst (filter (\<lambda>(k, v). v = '''') gs)) \<subseteq> dom c"
    using Cons.prems by (auto split: if_splits)
  have tl: "resolved f c (a # gs) = (case a of (k, v) \<Rightarrow> if v = '''' then (case c k of Some x \<Rightarrow> (k, py_str f x) | None \<Rightarrow> (k, v)) else (k, v)) # resolved f c gs"
    by (simp add: resolved_def)
  show ?case
  proof (cases "v = ''''")
    case False
    then show ?thesis using Cons.IH[OF sub] a tl by simp
  next
    case True
    then obtain x where x: "c k = Some x" using Cons.prems a by auto
    then show ?thesis using Cons.IH[OF sub] a tl True by simp
  qed
qed

lemma snd_update_dod_globals:
  "snd (update_dod_globals f e d config) = add_derived e config"
  by (simp add: update_dod_globals_def Let_def split: prod.splits)

text \<open>
  Claim C1, as the code has it.  With \<open>cfg\<close> the configuration extended by \<open>command_line\<close> and
  \<open>history\<close>: when every empty global attribute has a same-named key in \<open>cfg\<close>,
  \<^verbatim>\<open>_update_dod_globals\<close> returns the DOD in which each of them holds the string of the
  configured value, so that the attributes still empty are exactly those whose configured
  value is the empty string (none when all of these strings are non-empty); otherwise it
  raises the error that lists, in the order of the DOD, exactly the empty global attributes
  without a same-named key, all of them and not only the first.
\<close>

theorem update_dod_globals_result:
  assumes "distinct (map fst (globals d))"
  shows "fst (update_dod_globals f e d config) =
           (if set (empty_globals d) \<subseteq> dom (add_derived e config)
            then Inr (d\<lparr>globals := resolved f (add_derived e config) (globals d)\<rparr>)
            else Inl (MissingGlobals (filter (\<lambda>k. k \<notin> dom (add_derived e config)) (empty_globals d))))
       \<and> (set (empty_globals d) \<subseteq> dom (add_derived e config) \<longrightarrow>
            empty_globals (d\<lparr>globals := resolved f (add_derived e config) (globals d)\<rparr>)
              = filter (\<lambda>k. py_str f (the (add_derived e config k)) = '''') (empty_globals d))"
  using assms
  by (simp add: update_dod_globals_def Let_def fill_globals_all empty_globals_def missing_nil_iff empty_resolved)

theorem update_dod_globals_result_witness:
  "distinct (map fst (globals dod_doi))
   \<and> fst (update_dod_globals (\<lambda>v::unit pyval. ''{}'') env0 dod_doi
            (Map.empty(''doi'' \<mapsto> PStr ''10.5439/2530631'', ''facility_id'' \<mapsto> PStr ''X1'')))
       = Inr (dod_doi\<lparr>globals := [(''site_id'', ''guc''), (''doi'', ''10.5439/2530631''),
                (''command_line'', ''run_hp.py 2024 01''), (''facility_id'', ''X1'')]\<rparr>)
   \<and> fst (update_dod_globals (\<lambda>v::unit pyval. ''{}'') env0 dod_doi
            (Map.empty(''site_id'' \<mapsto> PStr ''guc'')))
       = Inl (MissingGlobals [''doi'', ''facility_id''])"
proof -
  have d: "distinct (map fst (globals dod_doi))"
    by (simp add: dod_doi_def)
  show ?thesis
    using d update_dod_globals_result [OF d, of "\<lambda>v::unit pyval. ''{}''" env0
             "Map.empty(''doi'' \<mapsto> PStr ''10.5439/2530631'', ''facility_id'' \<mapsto> PStr ''X1'')"]
          update_dod_globals_result [OF d, of "\<lambda>v::unit pyval. ''{}''" env0
             "Map.empty(''site_id'' \<mapsto> PStr ''guc'')"]
    by (simp add: empty_globals_def dod_doi_def add_derived_def resolved_def py_str_def
          command_line_def env0_def)
qed

text \<open>
  The claim as written fails when a configured value is the empty string: every empty
  attribute of \<open>dod_doi\<close> has a key in the configuration, the call returns, and \<open>doi\<close> is
  still empty in the result.
\<close>

theorem update_dod_globals_empty_value_counterexample:
  "add_derived env0 (Map.empty(''doi'' \<mapsto> PStr '''', ''facility_id'' \<mapsto> PStr ''X1'')) ''doi'' = Some (PStr '''')
   \<and> add_derived env0 (Map.empty(''doi'' \<mapsto> PStr '''', ''facility_id'' \<mapsto> PStr ''X1'')) ''command_line''
        = Some (PStr ''run_hp.py 2024 01'')
   \<and> add_derived env0 (Map.empty(''doi'' \<mapsto> PStr '''', ''facility_id'' \<mapsto> PStr ''X1'')) ''facility_id''
        = Some (PStr ''X1'')
   \<and> empty_globals dod_doi = [''doi'', ''command_line'', ''facility_id'']
   \<and> fst (update_dod_globals (\<lambda>v::unit pyval. ''{}'') env0 dod_doi
            (Map.empty(''doi'' \<mapsto> PStr '''', ''facility_id'' \<mapsto> PStr ''X1'')))
       = Inr (dod_doi\<lparr>globals := [(''site_id'', ''guc''), (''doi'', ''''),
                (''command_line'', ''run_hp.py 2024 01''), (''facility_id'', ''X1'')]\<rparr>)
   \<and> empty_globals (dod_doi\<lparr>globals := [(''site_id'', ''guc''), (''doi'', ''''),
                (''command_line'', ''run_hp.py 2024 01''), (''facility_id'', ''X1'')]\<rparr>) = [''doi'']"
  by (simp add: update_dod_globals_def Let_def empty_globals_def dod_doi_def add_derived_def py_str_def
        command_line_def env0_def)

text \<open>
  Claim C7, as the code has it.  \<^verbatim>\<open>_update_dod_globals\<close> assigns \<open>command_line\<close> and \<open>history\<close>
  in the dictionary it was given: whether it returns or raises, the caller's configuration
  is afterwards the original one updated at exactly these two keys, every other key
  unchanged.
\<close>

theorem update_dod_globals_config:
  "snd (update_dod_globals f e d config) =
     config(''command_line'' \<mapsto> PStr (command_line e), ''history'' \<mapsto> PStr (history e))"
  by (simp add: snd_update_dod_globals add_derived_def)

theorem update_dod_globals_config_witness:
  "snd (update_dod_globals (\<lambda>v::unit pyval. ''{}'') env0 dod_doi (Map.empty(''site_id'' \<mapsto> PStr ''guc''))) ''site_id''
     = Some (PStr ''guc'')
   \<and> snd (update_dod_globals (\<lambda>v::unit pyval. ''{}'') env0 dod_doi (Map.empty(''site_id'' \<mapsto> PStr ''guc''))) ''command_line''
     = Some (PStr ''run_hp.py 2024 01'')"
  using update_dod_globals_config [of "\<lambda>v::unit pyval. ''{}''" env0 dod_doi "Map.empty(''site_id'' \<mapsto> PStr ''guc'')"]
  by (simp add: command_line_def env0_def)

text \<open>
  The caller's configuration is not left as it was: it has gained the key \<open>command_line\<close>.
\<close>

theorem update_dod_globals_config_counterexample:
  "snd (update_dod_globals (\<lambda>v::unit pyval. ''{}'') env0 dod_doi (Map.empty(''site_id'' \<mapsto> PStr ''guc'')))
     \<noteq> Map.empty(''site_id'' \<mapsto> PStr ''guc'')"
proof
  assume "snd (update_dod_globals (\<lambda>v::unit pyval. ''{}'') env0 dod_doi (Map.empty(''site_id'' \<mapsto> PStr ''guc'')))
     = Map.empty(''site_id'' \<mapsto> PStr ''guc'')"
  then have "snd (update_dod_globals (\<lambda>v::unit pyval. ''{}'') env0 dod_doi (Map.empty(''site_id'' \<mapsto> PStr ''guc''))) ''command_line''
     = (Map.empty(''site_id'' \<mapsto> PStr ''guc'')) ''command_line''"
    by simp
  then show False
    by (simp add: snd_update_dod_globals add_derived_def)
qed

section \<open>The calendar conversions are inverse\<close>





lemma mod_known:
  fixes q r m :: int
  assumes "0 \<le> r" "r < m" "n = q * m + r"
  shows "n mod m = r"
  using assms by (simp add: mod_pos_pos_trivial)





section \<open>Properties of the attribute parser\<close>












section \<open>Properties of the time normalizer\<close>

















section \<open>Properties of the structural pass\<close>













section \<open>Properties of the value pass\<close>

lemma nc_assign_keys:
  "map fst (nc_variables (nc_assign n x nc)) = map fst (nc_variables nc)"
  by (simp add: nc_assign_def case_prod_beta)

lemma nc_assign_isopen:
  "nc_isopen (nc_assign n x nc) = nc_isopen nc"
  by (simp add: nc_assign_def)

lemma write_entry_keys:
  "write_entry npy ds d e nc = Inr nc' \<Longrightarrow> map fst (nc_variables nc') = map fst (nc_variables nc)"
  by (auto simp: write_entry_def Let_def nc_assign_keys split: option.splits if_splits sum.splits)

lemma mapped_pass_keys:
  "map fst (nc_variables (snd (mapped_pass npy ds d xs nc))) = map fst (nc_variables nc)"
proof (induction xs arbitrary: nc)
  case Nil
  then show ?case by simp
next
  case (Cons e xs)
  show ?case
  proof (cases "write_entry npy ds d e nc")
    case (Inl err)
    then show ?thesis by simp
  next
    case (Inr nc')
    then show ?thesis using Cons.IH[of nc'] write_entry_keys[OF Inr] by simp
  qed
qed

lemma mapped_pass_append:
  "mapped_pass npy ds d (xs @ ys) nc =
     (case mapped_pass npy ds d xs nc of
        (Some e, nc') \<Rightarrow> (Some e, nc')
      | (None, nc') \<Rightarrow> mapped_pass npy ds d ys nc')"
  by (induction xs arbitrary: nc) (auto split: sum.splits)

lemma write_entry_skip:
  assumes "ds_vars ds (fst e) = None \<or> snd e \<notin> fst ` set (nc_variables nc)"
  shows "write_entry npy ds d e nc = Inr nc"
proof -
  have "ds_vars ds (fst e) = None \<or> map_of (nc_variables nc) (snd e) = None"
    using assms by (auto simp: map_of_eq_None_iff)
  then show ?thesis
    by (auto simp: write_entry_def Let_def split: option.splits)
qed

text \<open>
  Claim C9.  An entry of the name mapping whose external name is not in the dataset, or whose
  DOD name is not among the variables of the file, is skipped: its step raises nothing and
  leaves the file as it is, and the whole loop gives the same outcome, error or file, as the
  loop over the mapping without that entry.
\<close>

theorem mapped_pass_skips_absent:
  assumes "ds_vars ds (fst e) = None \<or> snd e \<notin> fst ` set (nc_variables nc)"
  shows "write_entry npy ds d e nc = Inr nc
       \<and> mapped_pass npy ds d (xs @ e # ys) nc = mapped_pass npy ds d (xs @ ys) nc"
proof -
  have 1: "write_entry npy ds d e nc = Inr nc"
    by (rule write_entry_skip[OF assms])
  obtain r nc1 where p: "mapped_pass npy ds d xs nc = (r, nc1)"
    by (cases "mapped_pass npy ds d xs nc")
  have k: "map fst (nc_variables nc1) = map fst (nc_variables nc)"
    using mapped_pass_keys[of npy ds d xs nc] p by simp
  have "fst ` set (nc_variables nc1) = fst ` set (nc_variables nc)"
    using k by (metis set_map)
  then have "ds_vars ds (fst e) = None \<or> snd e \<notin> fst ` set (nc_variables nc1)"
    using assms by simp
  then have 2: "write_entry npy ds d e nc1 = Inr nc1"
    by (rule write_entry_skip)
  have "mapped_pass npy ds d (xs @ e # ys) nc = mapped_pass npy ds d (xs @ ys) nc"
    unfolding mapped_pass_append p using 2 by (cases r) simp_all
  then show ?thesis using 1 by simp
qed

theorem mapped_pass_skips_absent_witness:
  "(ds_vars ds0 (fst (''absent'', ''refl'')) = None
      \<or> snd (''absent'', ''refl'') \<notin> fst ` set (nc_variables nc0))
   \<and> write_entry npy0 ds0 dod0 (''absent'', ''refl'') nc0 = Inr nc0
   \<and> mapped_pass npy0 ds0 dod0 ([(''refl'', ''refl'')] @ (''absent'', ''refl'') # [(''refl'', ''nowhere'')]) nc0
       = mapped_pass npy0 ds0 dod0 ([(''refl'', ''refl'')] @ [(''refl'', ''nowhere'')]) nc0"
proof -
  have h: "ds_vars ds0 (fst (''absent'', ''refl'')) = None
      \<or> snd (''absent'', ''refl'') \<notin> fst ` set (nc_variables nc0)"
    by (simp add: ds0_def)
  show ?thesis
    using h mapped_pass_skips_absent [OF h, of npy0 dod0 "[(''refl'', ''refl'')]" "[(''refl'', ''nowhere'')]"]
    by blast
qed



lemma fill_masked_plain:
  "a_mask a = None \<Longrightarrow> fill_masked npy f a = a"
  by (simp add: fill_masked_def)






section \<open>Time values in the value pass\<close>
















lemma write_radar_isopen:
  "nc_isopen (write_radar ds vn an nc) = nc_isopen nc"
  by (simp add: write_radar_def nc_assign_isopen split: option.splits)








section \<open>The file handle\<close>

lemma write_entry_isopen:
  "write_entry npy ds d entry nc = Inr nc' \<Longrightarrow> nc_isopen nc' = nc_isopen nc"
  by (auto simp: write_entry_def Let_def nc_assign_isopen
           split: option.splits sum.splits if_splits)

lemma mapped_pass_isopen:
  "nc_isopen (snd (mapped_pass npy ds d m nc)) = nc_isopen nc"
proof (induction m arbitrary: nc)
  case Nil
  show ?case by simp
next
  case (Cons entry rest)
  show ?case
  proof (cases "write_entry npy ds d entry nc")
    case (Inl e)
    then show ?thesis by simp
  next
    case (Inr nc')
    then show ?thesis using Cons [of nc'] write_entry_isopen [OF Inr] by simp
  qed
qed

lemma write_times_isopen:
  "nc_isopen (snd (write_times tms nc)) = nc_isopen nc"
proof (induction tms arbitrary: nc)
  case Nil
  show ?case by simp
next
  case (Cons t rest)
  obtain tname tinfo where t: "t = (tname, tinfo)" by (cases t)
  show ?case unfolding t
    using Cons [of nc] Cons [of "nc_assign tname (DValue v) nc" for v]
    by (simp add: nc_assign_isopen split: option.splits)
qed

lemma create_variables_isopen:
  "nc_isopen (snd (create_variables vs nc)) = nc_isopen nc"
proof (induction vs arbitrary: nc)
  case Nil
  show ?case by simp
next
  case (Cons p rest)
  obtain varname vinfo where p: "p = (varname, vinfo)" by (cases p)
  show ?case unfolding p
    using Cons [of "nc\<lparr>nc_variables := AList.update varname var (nc_variables nc)\<rparr>" for var]
    by (simp split: sum.splits)
qed

lemma create_nc_structure_isopen:
  "nc_isopen (snd (create_nc_structure path d))"
  by (simp add: create_nc_structure_def create_variables_isopen)

lemma write_dataset_to_file_isopen:
  "nc_isopen (snd (write_dataset_to_file npy ds nc d config))
     = (fst (write_dataset_to_file npy ds nc d config) \<noteq> None \<and> nc_isopen nc)"
proof (cases "get_standardized_times ds")
  case (Inl e)
  then show ?thesis by (simp add: write_dataset_to_file_def)
next
  case (Inr tms)
  show ?thesis
  proof (cases "config ''variable_mapping''")
    case None
    then show ?thesis using Inr by (simp add: write_dataset_to_file_def)
  next
    case (Some v)
    show ?thesis
    proof (cases v)
      case (PDict mapping)
      obtain r1 nc1 where m: "mapped_pass npy ds d mapping nc = (r1, nc1)"
        by (cases "mapped_pass npy ds d mapping nc")
      have o1: "nc_isopen nc1 = nc_isopen nc"
        using mapped_pass_isopen [of npy ds d mapping nc] m by simp
      show ?thesis
      proof (cases r1)
        case (Some e)
        then show ?thesis using Inr \<open>config ''variable_mapping'' = Some v\<close> PDict m o1
          by (simp add: write_dataset_to_file_def)
      next
        case None
        obtain r2 nc2 where w: "write_times tms nc1 = (r2, nc2)"
          by (cases "write_times tms nc1")
        have o2: "nc_isopen nc2 = nc_isopen nc"
          using write_times_isopen [of tms nc1] w o1 by simp
        show ?thesis
          using Inr \<open>config ''variable_mapping'' = Some v\<close> PDict m None w o2
          by (cases r2) (simp_all add: write_dataset_to_file_def nc_close_def)
      qed
    qed (use Inr Some in \<open>simp_all add: write_dataset_to_file_def\<close>)
  qed
qed

lemma set_fields_isopen:
  "nc_isopen (set_fields nc) = nc_isopen nc"
  by (simp add: set_fields_def)

lemma write_ds_to_nc_cases:
  assumes "write_ds_to_nc npy py_float str_other e ds template output_path config = (r, h, cfg)"
  shows "(h = None \<and> r \<noteq> None
            \<and> ((\<exists>err. parse_dod py_float template = Inl err \<and> r = Some err)
               \<or> (\<exists>d. parse_dod py_float template = Inr d
                     \<and> (fst (update_dod_globals str_other e d config) = Inl (the r)
                        \<or> (\<exists>d'. fst (update_dod_globals str_other e d config) = Inr d'
                              \<and> update_dod_time_attributes d' ds = Inl (the r))))))
         \<or> (\<exists>d d' d'' nc. parse_dod py_float template = Inr d
               \<and> fst (update_dod_globals str_other e d config) = Inr d'
               \<and> update_dod_time_attributes d' ds = Inr d''
               \<and> h = Some nc \<and> nc_isopen nc = (r \<noteq> None))"
proof (cases "parse_dod py_float template")
  case (Inl err)
  then show ?thesis using assms by (auto simp: write_ds_to_nc_def)
next
  case (Inr d)
  obtain g config' where u: "update_dod_globals str_other e d config = (g, config')"
    by (cases "update_dod_globals str_other e d config")
  show ?thesis
  proof (cases g)
    case (Inl err)
    then show ?thesis using assms Inr u by (auto simp: write_ds_to_nc_def)
  next
    case g: (Inr d')
    show ?thesis
    proof (cases "update_dod_time_attributes d' ds")
      case (Inl err)
      then show ?thesis using assms Inr u g by (auto simp: write_ds_to_nc_def)
    next
      case t: (Inr d'')
      obtain r1 nc1 where c: "create_nc_structure output_path d'' = (r1, nc1)"
        by (cases "create_nc_structure output_path d''")
      have o1: "nc_isopen nc1"
        using create_nc_structure_isopen [of output_path d''] c by simp
      show ?thesis
      proof (cases r1)
        case (Some err)
        then have "h = Some nc1" "r = Some err"
          using assms Inr u g t c by (simp_all add: write_ds_to_nc_def)
        then show ?thesis using Inr u g t o1 by auto
      next
        case None
        obtain r2 nc2 where w: "write_dataset_to_file npy ds (set_fields nc1) d'' config' = (r2, nc2)"
          by (cases "write_dataset_to_file npy ds (set_fields nc1) d'' config'")
        have "nc_isopen nc2 = (r2 \<noteq> None)"
          using write_dataset_to_file_isopen [of npy ds "set_fields nc1" d'' config'] w o1
          by (simp add: set_fields_isopen)
        moreover have "h = Some nc2" "r = r2"
          using assms Inr u g t c None w by (simp_all add: write_ds_to_nc_def)
        ultimately show ?thesis using Inr u g t by auto
      qed
    qed
  qed
qed

text \<open>
  Claim C8, as the code has it.  The output file is opened by the structural pass, after
  the DOD was parsed and its attributes were resolved.  A write that raises nothing has
  closed the file at the end of the value pass.  An error of the parser (schema syntax) or
  of the global-attribute resolver (unresolved attributes) is raised before any file is
  opened, so no handle exists.  An error raised once the file is open (in the structural
  pass or in the value pass, as the type error for calendar objects) leaves the call with
  the handle still open: nothing closes it on that path.
\<close>

theorem write_ds_to_nc_handle:
  "write_ds_to_nc npy py_float str_other e ds template output_path config = (r, h, cfg) \<Longrightarrow>
     (r = None \<longrightarrow> (\<exists>nc. h = Some nc \<and> \<not> nc_isopen nc))
   \<and> ((\<exists>err. parse_dod py_float template = Inl err) \<longrightarrow> h = None \<and> r \<noteq> None)
   \<and> (\<forall>d err. parse_dod py_float template = Inr d
               \<and> fst (update_dod_globals str_other e d config) = Inl err
           \<longrightarrow> h = None \<and> r = Some err)
   \<and> (\<forall>nc. h = Some nc \<longrightarrow> nc_isopen nc = (r \<noteq> None))"
proof -
  assume a: "write_ds_to_nc npy py_float str_other e ds template output_path config = (r, h, cfg)"
  note c = write_ds_to_nc_cases [OF a]
  have 1: "r = None \<longrightarrow> (\<exists>nc. h = Some nc \<and> \<not> nc_isopen nc)"
    using c by auto
  have 2: "(\<exists>err. parse_dod py_float template = Inl err) \<longrightarrow> h = None \<and> r \<noteq> None"
    using c by auto
  have 3: "\<forall>d err. parse_dod py_float template = Inr d
               \<and> fst (update_dod_globals str_other e d config) = Inl err
           \<longrightarrow> h = None \<and> r = Some err"
    using c by auto
  have 4: "\<forall>nc. h = Some nc \<longrightarrow> nc_isopen nc = (r \<noteq> None)"
    using c by auto
  show ?thesis using 1 2 3 4 by (intro conjI)
qed

text \<open>
  The write of a dataset that holds calendar objects under a mapped name: the type error is
  raised in the value pass and the file that the structural pass opened is still open.
\<close>

theorem write_ds_to_nc_open_counterexample:
  "fst (write_ds_to_nc npy0 float_literals (\<lambda>v::unit pyval. ''{}'') env0 ds0 template0 ''out.nc''
          cfg_doi_when) = Some (CftimeTypeError ''when'')
   \<and> map_option nc_isopen
       (fst (snd (write_ds_to_nc npy0 float_literals (\<lambda>v::unit pyval. ''{}'') env0 ds0 template0
                    ''out.nc'' cfg_doi_when))) = Some True"
  by code_simp

theorem write_ds_to_nc_handle_witness:
  "fst (write_ds_to_nc npy0 float_literals (\<lambda>v::unit pyval. ''{}'') env0 ds0 template0 ''out.nc''
          cfg_doi) = None
   \<and> (\<exists>nc. fst (snd (write_ds_to_nc npy0 float_literals (\<lambda>v::unit pyval. ''{}'') env0 ds0
                        template0 ''out.nc'' cfg_doi)) = Some nc
          \<and> \<not> nc_isopen nc)
   \<and> parse_dod float_literals [''x = two''] = Inl ValueError
   \<and> fst (snd (write_ds_to_nc npy0 float_literals (\<lambda>v::unit pyval. ''{}'') env0 ds0 [''x = two'']
                 ''out.nc'' cfg_doi)) = None
   \<and> fst (write_ds_to_nc npy0 float_literals (\<lambda>v::unit pyval. ''{}'') env0 ds0 template0 ''out.nc''
            cfg_nodoi) = Some (MissingGlobals [''doi''])
   \<and> fst (snd (write_ds_to_nc npy0 float_literals (\<lambda>v::unit pyval. ''{}'') env0 ds0 template0
                 ''out.nc'' cfg_nodoi)) = None"
proof -
  let ?s = "\<lambda>v::unit pyval. ''{}''"
  let ?w = "write_ds_to_nc npy0 float_literals ?s env0 ds0 template0 ''out.nc'' cfg_doi"
  let ?p = "write_ds_to_nc npy0 float_literals ?s env0 ds0 [''x = two''] ''out.nc'' cfg_doi"
  let ?m = "write_ds_to_nc npy0 float_literals ?s env0 ds0 template0 ''out.nc'' cfg_nodoi"
  have ew: "?w = (fst ?w, fst (snd ?w), snd (snd ?w))" by simp
  have ep: "?p = (fst ?p, fst (snd ?p), snd (snd ?p))" by simp
  have em: "?m = (fst ?m, fst (snd ?m), snd (snd ?m))" by simp
  note tw = write_ds_to_nc_handle [OF ew]
  note tp = write_ds_to_nc_handle [OF ep]
  note tm = write_ds_to_nc_handle [OF em]
  have r: "fst ?w = None" by code_simp
  have "\<exists>nc. fst (snd ?w) = Some nc \<and> \<not> nc_isopen nc"
    by (rule tw [THEN conjunct1, THEN mp, OF r])
  moreover have p: "parse_dod float_literals [''x = two''] = Inl ValueError" by code_simp
  moreover have "fst (snd ?p) = None"
  proof -
    have "\<exists>err. parse_dod float_literals [''x = two''] = Inl err" using p by (rule exI)
    then show ?thesis
      by (rule tp [THEN conjunct2, THEN conjunct1, THEN mp, THEN conjunct1])
  qed
  moreover have m: "fst ?m = Some (MissingGlobals [''doi''])" by code_simp
  moreover have "fst (snd ?m) = None"
  proof -
    have "case parse_dod float_literals template0 of
            Inl _ \<Rightarrow> False
          | Inr d \<Rightarrow> fst (update_dod_globals ?s env0 d cfg_nodoi) = Inl (MissingGlobals [''doi''])"
      by code_simp
    then obtain d where a: "parse_dod float_literals template0 = Inr d
        \<and> fst (update_dod_globals ?s env0 d cfg_nodoi) = Inl (MissingGlobals [''doi''])"
      by (cases "parse_dod float_literals template0") simp_all
    show ?thesis
      by (rule tm [THEN conjunct2, THEN conjunct2, THEN conjunct1, THEN spec, THEN spec,
                   THEN mp, OF a, THEN conjunct1])
  qed
  ultimately show ?thesis using r by (intro conjI)
qed

end
